theory Spec2Isabelle
  imports Complex_Main "HOL-Library.Sublist"
begin

section \<open>Data model\<close>

text \<open>
  The clip generator works on the transcript produced by the transcriber: a list of
  segment dictionaries with the keys \<open>start\<close>, \<open>end\<close> and \<open>text\<close>. Times are Python
  floats; they are modelled by real numbers, so the rounding of float arithmetic is not
  part of the model. Texts are Python strings; they are modelled by \<open>string\<close> (lists of
  8-bit characters), and \<open>str.lower\<close> and \<open>str.strip\<close> are modelled on ASCII.
\<close>

record segment =
  seg_start :: real
  seg_end :: real
  seg_text :: string

datatype reason = high_energy | reaction_gap

text \<open>The dictionaries appended to \<open>moments\<close> in \<open>find_viral_moments\<close>.\<close>

record moment =
  m_start :: real
  m_end :: real
  m_text :: string
  m_energy_score :: int
  m_reason :: reason

text \<open>The dictionaries appended to \<open>clips\<close> in \<open>find_viral_moments\<close>.\<close>

record clip =
  c_start :: real
  c_end :: real
  c_duration :: real
  c_text :: string
  c_segments :: "segment list"
  c_reason :: reason

section \<open>String operations of Python\<close>

text \<open>\<open>str.lower\<close>, on the ASCII letters.\<close>

definition lower_char :: "char \<Rightarrow> char" where
  "lower_char c =
     (case map_of (zip ''ABCDEFGHIJKLMNOPQRSTUVWXYZ'' ''abcdefghijklmnopqrstuvwxyz'') c of
        Some d \<Rightarrow> d
      | None \<Rightarrow> c)"

definition lower :: "string \<Rightarrow> string" where
  "lower s = map lower_char s"

text \<open>\<open>w in t\<close> for two strings: \<open>w\<close> occurs in \<open>t\<close> as a contiguous substring.\<close>

fun str_in :: "string \<Rightarrow> string \<Rightarrow> bool" where
  "str_in w [] = (w = [])"
| "str_in w (c # cs) = (prefix w (c # cs) \<or> str_in w cs)"

text \<open>\<open>sep.join(parts)\<close>.\<close>

fun join :: "string \<Rightarrow> string list \<Rightarrow> string" where
  "join sep [] = []"
| "join sep [p] = p"
| "join sep (p # q # ps) = p @ sep @ join sep (q # ps)"

text \<open>
  \<open>str.strip()\<close>: removes leading and trailing whitespace. The ASCII characters for which
  \<open>str.isspace\<close> holds are the codes 9 to 13, 28 to 31 and 32.
\<close>

definition is_space :: "char \<Rightarrow> bool" where
  "is_space c = (of_char c \<in> set [9, 10, 11, 12, 13, 28, 29, 30, 31, 32 :: nat])"

definition strip :: "string \<Rightarrow> string" where
  "strip s = rev (dropWhile is_space (rev (dropWhile is_space s)))"

section \<open>Moment detection in \<open>find_viral_moments\<close>\<close>

definition energy_words :: "string list" where
  "energy_words = [''wow'', ''omg'', ''insane'', ''crazy'', ''no way'', ''let's go'',
                   ''pog'', ''holy'', ''what'', ''unbelievable'', ''clutch'']"

definition laughter :: "string list" where
  "laughter = [''haha'', ''lol'', ''lmao'']"

text \<open>
  The body of the first loop up to the test \<open>energy_score >= 2\<close>: the score of one segment.
  \<open>sum(1 for word in energy_words if word in text)\<close> adds one for every word of the list
  that is found in the lower-cased text.
\<close>

definition energy_score :: "segment \<Rightarrow> int" where
  "energy_score seg =
     (let text = lower (seg_text seg);
          energy_score = int (length (filter (\<lambda>word. str_in word text) energy_words));
          energy_score = (if str_in ''!'' (seg_text seg) then energy_score + 2 else energy_score);
          energy_score = (if list_ex (\<lambda>laugh. str_in laugh text) laughter
                          then energy_score + 1 else energy_score)
      in energy_score)"

text \<open>Method 1: one pass over the segments, appending to \<open>moments\<close>.\<close>

definition energy_step :: "moment list \<Rightarrow> segment \<Rightarrow> moment list" where
  "energy_step moments seg =
     (if energy_score seg \<ge> 2
      then moments @ [\<lparr>m_start = seg_start seg, m_end = seg_end seg, m_text = seg_text seg,
                       m_energy_score = energy_score seg, m_reason = high_energy\<rparr>]
      else moments)"

text \<open>Method 2: one pass over the indices \<open>range(len(segments) - 1)\<close>.\<close>

definition gap_step :: "segment list \<Rightarrow> moment list \<Rightarrow> nat \<Rightarrow> moment list" where
  "gap_step segments moments i =
     (let current_end = seg_end (segments ! i);
          next_start = seg_start (segments ! (i + 1));
          gap = next_start - current_end
      in if 1 \<le> gap \<and> gap \<le> 3
         then moments @ [\<lparr>m_start = current_end, m_end = next_start,
                          m_text = ''[reaction moment]'', m_energy_score = 1,
                          m_reason = reaction_gap\<rparr>]
         else moments)"

text \<open>The list \<open>moments\<close> after both passes.\<close>

definition find_moments :: "segment list \<Rightarrow> moment list" where
  "find_moments segments =
     foldl (gap_step segments) (foldl energy_step [] segments) [0 ..< length segments - 1]"

section \<open>Window selection in \<open>find_viral_moments\<close>\<close>

text \<open>
  The statement \<open>if end - start < min_duration: ...\<close>: the window of a moment, extended by
  the same amount on both sides to reach the minimum duration, the start clamped at 0 and
  the end at the end of the last segment.
\<close>

definition extend_window :: "segment list \<Rightarrow> int \<Rightarrow> moment \<Rightarrow> real \<times> real" where
  "extend_window segments min_duration moment =
     (let start = m_start moment;
          endt = m_end moment
      in if endt - start < of_int min_duration
         then let extend = (of_int min_duration - (endt - start)) / 2
              in (max 0 (start - extend),
                  min (if segments \<noteq> [] then seg_end (last segments) else endt + 30)
                      (endt + extend))
         else (start, endt))"

text \<open>
  The statement \<open>if end - start > max_duration: end = start + max_duration\<close> after it: the
  candidate window of the moment.
\<close>

definition clip_window :: "segment list \<Rightarrow> int \<Rightarrow> int \<Rightarrow> moment \<Rightarrow> real \<times> real" where
  "clip_window segments min_duration max_duration moment =
     (let (start, endt) = extend_window segments min_duration moment;
          endt = (if endt - start > of_int max_duration
                  then start + of_int max_duration else endt)
      in (start, endt))"

text \<open>The test of the inner loop over the accepted clips.\<close>

definition overlap_test :: "real \<Rightarrow> real \<Rightarrow> clip \<Rightarrow> bool" where
  "overlap_test start endt clip = (\<not> (endt < c_start clip \<or> start > c_end clip))"

text \<open>The dictionary appended to \<open>clips\<close> for an accepted window.\<close>

definition make_clip :: "segment list \<Rightarrow> real \<Rightarrow> real \<Rightarrow> moment \<Rightarrow> clip" where
  "make_clip segments start endt moment =
     (let clip_segments =
            filter (\<lambda>s. (start \<le> seg_start s \<and> seg_start s \<le> endt)
                      \<or> (start \<le> seg_end s \<and> seg_end s \<le> endt)) segments;
          clip_text = join '' '' (map seg_text clip_segments)
      in \<lparr>c_start = start, c_end = endt, c_duration = endt - start,
          c_text = strip clip_text, c_segments = clip_segments,
          c_reason = m_reason moment\<rparr>)"

text \<open>
  Method 3: the loop over the sorted moments, with the list \<open>clips\<close> as its state. It
  stops as soon as five clips have been accepted.
\<close>

fun select_clips :: "segment list \<Rightarrow> int \<Rightarrow> int \<Rightarrow> moment list \<Rightarrow> clip list \<Rightarrow> clip list" where
  "select_clips segments min_duration max_duration [] clips = clips"
| "select_clips segments min_duration max_duration (moment # rest) clips =
     (if length clips \<ge> 5 then clips
      else let (start, endt) = clip_window segments min_duration max_duration moment
           in if list_ex (overlap_test start endt) clips
              then select_clips segments min_duration max_duration rest clips
              else select_clips segments min_duration max_duration rest
                     (clips @ [make_clip segments start endt moment]))"

text \<open>
  \<open>sorted(moments, key=lambda x: x["energy_score"], reverse=True)\<close>: descending by score;
  Python's sort is stable also with \<open>reverse=True\<close>, as is \<open>sort_key\<close>.
\<close>

definition sorted_moments :: "moment list \<Rightarrow> moment list" where
  "sorted_moments moments = sort_key (\<lambda>x. - m_energy_score x) moments"

text \<open>
  \<open>find_viral_moments(transcript, min_duration, max_duration)\<close>; the argument \<open>segments\<close>
  is \<open>transcript.get("segments", [])\<close>.
\<close>

definition find_viral_moments :: "segment list \<Rightarrow> int \<Rightarrow> int \<Rightarrow> clip list" where
  "find_viral_moments segments min_duration max_duration =
     (if segments = [] then []
      else select_clips segments min_duration max_duration
             (sorted_moments (find_moments segments)) [])"

section \<open>The pipeline of \<open>process_vod\<close> after the transcription\<close>

text \<open>
  The slice \<open>xs[:k]\<close> for a Python integer \<open>k\<close>: the first \<open>k\<close> elements when \<open>k\<close> is not
  negative, all but the last \<open>-k\<close> elements otherwise.
\<close>

definition py_slice_to :: "'a list \<Rightarrow> int \<Rightarrow> 'a list" where
  "py_slice_to xs k =
     (if k \<ge> 0 then take (nat k) xs else take (length xs - nat (- k)) xs)"

text \<open>The windows that \<open>process_vod\<close> renders: \<open>clips[:max_clips]\<close>.\<close>

definition selected_windows :: "segment list \<Rightarrow> int \<times> int \<Rightarrow> int \<Rightarrow> clip list" where
  "selected_windows segments clip_duration max_clips =
     py_slice_to (find_viral_moments segments (fst clip_duration) (snd clip_duration)) max_clips"

text \<open>The JSON sidecar written beside a rendered clip.\<close>

record metadata =
  md_source :: string
  md_start_time :: real
  md_end_time :: real
  md_duration :: real
  md_transcript :: string
  md_reason :: reason

definition metadata_of :: "string \<Rightarrow> clip \<Rightarrow> metadata" where
  "metadata_of vod_url clip =
     \<lparr>md_source = vod_url, md_start_time = c_start clip, md_end_time = c_end clip,
      md_duration = c_duration clip, md_transcript = c_text clip, md_reason = c_reason clip\<rparr>"

text \<open>
  The state of the rendering loop. The output file \<open>clip_<timestamp>_<i>.mp4\<close> and its
  sidecar \<open>clip_<timestamp>_<i>.json\<close> are identified by the index \<open>i\<close>; \<open>attempted\<close> records
  the calls of \<open>create_vertical_video\<close>. The renderer is outside the program: its result
  for the call with index \<open>i\<close> is given by \<open>outcome i\<close> (\<open>True\<close> for success, \<open>False\<close> for a
  \<open>CalledProcessError\<close>).
\<close>

record render_state =
  attempted :: "(nat \<times> clip) list"
  output_files :: "nat list"
  sidecars :: "(nat \<times> metadata) list"

definition render_init :: render_state where
  "render_init = \<lparr>attempted = [], output_files = [], sidecars = []\<rparr>"

definition render_step :: "(nat \<Rightarrow> bool) \<Rightarrow> string \<Rightarrow> render_state \<Rightarrow> nat \<times> clip \<Rightarrow> render_state" where
  "render_step outcome vod_url st ic =
     (let st = st\<lparr>attempted := attempted st @ [ic]\<rparr>;
          success = outcome (fst ic)
      in if success
         then st\<lparr>output_files := output_files st @ [fst ic],
                 sidecars := sidecars st @ [(fst ic, metadata_of vod_url (snd ic))]\<rparr>
         else st)"

definition render_loop :: "(nat \<Rightarrow> bool) \<Rightarrow> string \<Rightarrow> clip list \<Rightarrow> render_state" where
  "render_loop outcome vod_url windows =
     foldl (render_step outcome vod_url) render_init (enumerate 1 windows)"

text \<open>
  \<open>process_vod\<close>, with the results of the download and of the transcription as arguments.
  It returns early, with no file, when the download fails, when there is no segment and
  when no clip was found.
\<close>

definition process_vod ::
  "bool \<Rightarrow> segment list \<Rightarrow> (nat \<Rightarrow> bool) \<Rightarrow> string \<Rightarrow> int \<times> int \<Rightarrow> int \<Rightarrow> render_state" where
  "process_vod download_ok segments outcome vod_url clip_duration max_clips =
     (if \<not> download_ok then render_init
      else if segments = [] then render_init
      else let clips = find_viral_moments segments (fst clip_duration) (snd clip_duration)
           in if clips = [] then render_init
              else render_loop outcome vod_url (py_slice_to clips max_clips))"

datatype status = completed | failed

text \<open>\<open>process_job\<close> in the web interface: the status it stores for the list of clips.\<close>

definition process_job_status :: "nat list \<Rightarrow> status" where
  "process_job_status clips = (if clips \<noteq> [] then completed else failed)"

section \<open>Subtitles\<close>

text \<open>Decimal digits of a natural number, and the format specifications \<open>02d\<close> and \<open>03d\<close>.\<close>

fun str_nat :: "nat \<Rightarrow> string" where
  "str_nat n =
     (if n < 10 then [''0123456789'' ! n]
      else str_nat (n div 10) @ [''0123456789'' ! (n mod 10)])"

declare str_nat.simps [simp del]

definition zero_pad :: "nat \<Rightarrow> nat \<Rightarrow> string" where
  "zero_pad width n = replicate (width - length (str_nat n)) (CHR ''0'') @ str_nat n"

text \<open>
  \<open>timedelta(seconds=x)\<close> keeps a whole number of microseconds, rounding half to even;
  \<open>td.seconds\<close> is the number of seconds within the day and \<open>td.microseconds\<close> the rest.
\<close>

definition round_half_even :: "real \<Rightarrow> int" where
  "round_half_even x =
     (let f = \<lfloor>x\<rfloor>; d = x - of_int f
      in if d < 1 / 2 then f else if d > 1 / 2 then f + 1
         else if even f then f else f + 1)"

definition format_time :: "real \<Rightarrow> string" where
  "format_time seconds =
     (let us = round_half_even (seconds * 1000000);
          td_seconds = (us div 1000000) mod 86400;
          td_microseconds = us mod 1000000;
          hours = td_seconds div 3600;
          remainder = td_seconds mod 3600;
          minutes = remainder div 60;
          seconds = remainder mod 60;
          milliseconds = td_microseconds div 1000
      in zero_pad 2 (nat hours) @ '':'' @ zero_pad 2 (nat minutes) @ '':''
         @ zero_pad 2 (nat seconds) @ '','' @ zero_pad 3 (nat milliseconds))"

definition newline :: string where
  "newline = [CHR 0x0A]"

text \<open>
  \<open>_create_srt\<close>: the text written to the subtitle file. The caption number is the index
  that \<open>enumerate(segments, 1)\<close> gives to the segment.
\<close>

definition srt_block :: "real \<Rightarrow> nat \<times> segment \<Rightarrow> string" where
  "srt_block offset iseg =
     (let start = seg_start (snd iseg) - offset;
          endt = seg_end (snd iseg) - offset;
          text = strip (seg_text (snd iseg))
      in if start < 0 \<or> text = [] then []
         else str_nat (fst iseg) @ newline
              @ format_time start @ '' --> '' @ format_time endt @ newline
              @ text @ newline @ newline)"

definition create_srt :: "segment list \<Rightarrow> real \<Rightarrow> string" where
  "create_srt segments offset = concat (map (srt_block offset) (enumerate 1 segments))"

text \<open>
  \<open>create_vertical_video\<close>: a subtitle file is written when subtitles are asked for and the
  window has segments; the offset is the start of the window.
\<close>

definition subtitle_track :: "bool \<Rightarrow> segment list \<Rightarrow> real \<Rightarrow> string option" where
  "subtitle_track add_subtitles subtitle_segments start_time =
     (if add_subtitles \<and> subtitle_segments \<noteq> []
      then Some (create_srt subtitle_segments start_time) else None)"

section \<open>The configuration module\<close>

text \<open>
  \<open>config.py\<close> defines \<open>ENERGY_WORDS\<close>, \<open>LAUGHTER_PATTERNS\<close> and \<open>EXCLAMATION_WEIGHT\<close>. No
  other module of the repository imports it.
\<close>

record config =
  ENERGY_WORDS :: "string list"
  LAUGHTER_PATTERNS :: "string list"
  EXCLAMATION_WEIGHT :: int

definition config_py :: config where
  "config_py =
     \<lparr>ENERGY_WORDS =
        [''wow'', ''omg'', ''oh my god'', ''holy'', ''what'', ''no way'',
         ''insane'', ''crazy'', ''wild'', ''nuts'', ''bonkers'',
         ''let's go'', ''pog'', ''poggers'', ''clutch'', ''sick'',
         ''unbelievable'', ''incredible'', ''amazing'', ''awesome'',
         ''destroyed'', ''wrecked'', ''demolished'', ''owned'',
         ''lmao'', ''haha'', ''lol'', ''dead'', ''dying'',
         ''wait'', ''hold up'', ''stop'', ''pause'',
         ''perfect'', ''clean'', ''smooth'', ''nasty''],
      LAUGHTER_PATTERNS = [''haha'', ''hehe'', ''lol'', ''lmao'', ''lmfao'', ''rofl''],
      EXCLAMATION_WEIGHT = 2\<rparr>"



section \<open>Notions used in the statements\<close>

text \<open>The moment that the first pass appends for a segment, and the second for an index.\<close>

definition energy_moment :: "segment \<Rightarrow> moment" where
  "energy_moment seg =
     \<lparr>m_start = seg_start seg, m_end = seg_end seg, m_text = seg_text seg,
      m_energy_score = energy_score seg, m_reason = high_energy\<rparr>"

definition gap_moment :: "segment list \<Rightarrow> nat \<Rightarrow> moment" where
  "gap_moment segments i =
     \<lparr>m_start = seg_end (segments ! i), m_end = seg_start (segments ! (i + 1)),
      m_text = ''[reaction moment]'', m_energy_score = 1, m_reason = reaction_gap\<rparr>"

definition gap_ok :: "segment list \<Rightarrow> nat \<Rightarrow> bool" where
  "gap_ok segments i =
     (1 \<le> seg_start (segments ! (i + 1)) - seg_end (segments ! i)
      \<and> seg_start (segments ! (i + 1)) - seg_end (segments ! i) \<le> 3)"

text \<open>The clip that the selection loop appends when it accepts a moment.\<close>

definition clip_of :: "segment list \<Rightarrow> int \<Rightarrow> int \<Rightarrow> moment \<Rightarrow> clip" where
  "clip_of segments min_duration max_duration moment =
     make_clip segments (fst (clip_window segments min_duration max_duration moment))
       (snd (clip_window segments min_duration max_duration moment)) moment"

text \<open>No clip of the list passes the overlap test against an earlier one.\<close>

definition separated :: "clip list \<Rightarrow> bool" where
  "separated clips =
     (\<forall>j < length clips. \<forall>i < j.
        \<not> overlap_test (c_start (clips ! j)) (c_end (clips ! j)) (clips ! i))"


text \<open>
  The score as the specification words it: one point for every occurrence of an energy
  phrase in the lower-cased text (occurrences counted by their starting position), two
  for an exclamation mark, one for laughter.
\<close>

fun count_occurrences :: "string \<Rightarrow> string \<Rightarrow> nat" where
  "count_occurrences w [] = (if w = [] then 1 else 0)"
| "count_occurrences w (c # cs) =
     (if prefix w (c # cs) then 1 else 0) + count_occurrences w cs"

definition spec_energy_score :: "segment \<Rightarrow> int" where
  "spec_energy_score seg =
     (let text = lower (seg_text seg)
      in int (sum_list (map (\<lambda>word. count_occurrences word text) energy_words))
         + (if str_in ''!'' (seg_text seg) then 2 else 0)
         + (if list_ex (\<lambda>laugh. str_in laugh text) laughter then 1 else 0))"

subsection \<open>Example transcripts\<close>

definition example_transcript :: "segment list" where
  "example_transcript =
     [\<lparr>seg_start = 0, seg_end = 10, seg_text = ''hello''\<rparr>,
      \<lparr>seg_start = 10, seg_end = 12, seg_text = ''wow insane!''\<rparr>,
      \<lparr>seg_start = 12, seg_end = 40, seg_text = ''ok''\<rparr>,
      \<lparr>seg_start = 42, seg_end = 50, seg_text = ''Holy, that was CLUTCH''\<rparr>,
      \<lparr>seg_start = 100, seg_end = 102, seg_text = ''no way! lol''\<rparr>,
      \<lparr>seg_start = 110, seg_end = 130, seg_text = ''bye''\<rparr>]"

definition scenario_one :: "segment list" where
  "scenario_one = [\<lparr>seg_start = 10, seg_end = 12, seg_text = ''holy that was insane!''\<rparr>]"


definition repeated_word :: segment where
  "repeated_word = \<lparr>seg_start = 0, seg_end = 1, seg_text = ''wow wow''\<rparr>"



section \<open>The two detection passes\<close>

lemma foldl_energy_step:
  "foldl energy_step acc segs
     = acc @ map energy_moment (filter (\<lambda>s. energy_score s \<ge> 2) segs)"
  by (induction segs arbitrary: acc) (simp_all add: energy_step_def energy_moment_def)

lemma foldl_gap_step:
  "foldl (gap_step segments) acc is
     = acc @ map (gap_moment segments) (filter (gap_ok segments) is)"
  by (induction "is" arbitrary: acc)
     (simp_all add: gap_step_def gap_moment_def gap_ok_def Let_def)

lemma find_moments_eq:
  "find_moments segments =
     map energy_moment (filter (\<lambda>s. energy_score s \<ge> 2) segments)
     @ map (gap_moment segments) (filter (gap_ok segments) [0 ..< length segments - 1])"
  by (simp add: find_moments_def foldl_energy_step foldl_gap_step)

lemma filter_high_energy:
  "filter (\<lambda>m. m_reason m = high_energy) (find_moments segments)
     = map energy_moment (filter (\<lambda>s. energy_score s \<ge> 2) segments)"
  by (simp add: find_moments_eq filter_map o_def energy_moment_def gap_moment_def)


lemma str_in_sublist: "str_in w t \<longleftrightarrow> sublist w t"
  by (induction t) (auto simp: sublist_Cons_right)

lemma str_in_single: "str_in [c] t \<longleftrightarrow> c \<in> set t"
  by (induction t) auto

lemma distinct_energy_words: "distinct energy_words"
  by (simp add: energy_words_def)

lemma energy_score_eq:
  "energy_score seg =
     int (card {word \<in> set energy_words. sublist word (lower (seg_text seg))})
     + (if CHR ''!'' \<in> set (seg_text seg) then 2 else 0)
     + (if \<exists>laugh \<in> set laughter. sublist laugh (lower (seg_text seg)) then 1 else 0)"
proof -
  have words: "length (filter (\<lambda>word. str_in word (lower (seg_text seg))) energy_words)
         = card {word \<in> set energy_words. sublist word (lower (seg_text seg))}"
    using distinct_card[OF distinct_filter[OF distinct_energy_words]]
    by (simp add: str_in_sublist)
  show ?thesis
    unfolding energy_score_def Let_def words str_in_single
    by (simp add: list_ex_iff str_in_sublist)
qed

text \<open>
  C1 (as amended). The score of a segment is the number of phrases of the fixed list
  \<open>energy_words\<close> that occur at least once in the lower-cased text (one point per phrase,
  however often it occurs), plus 2 if the raw text contains an exclamation mark, plus 1
  if one of \<open>haha\<close>, \<open>lol\<close>, \<open>lmao\<close> occurs in the lower-cased text. The high_energy moments
  are, in transcript order, exactly those of the segments whose score is at least 2, with
  start, end and text copied from the segment.
\<close>

theorem energy_moments_emitted:
  "filter (\<lambda>m. m_reason m = high_energy) (find_moments segments)
     = map (\<lambda>seg. \<lparr>m_start = seg_start seg, m_end = seg_end seg, m_text = seg_text seg,
                    m_energy_score = energy_score seg, m_reason = high_energy\<rparr>)
           (filter (\<lambda>seg. energy_score seg \<ge> 2) segments)
   \<and> (\<forall>seg. energy_score seg =
          int (card {word \<in> set energy_words. sublist word (lower (seg_text seg))})
          + (if CHR ''!'' \<in> set (seg_text seg) then 2 else 0)
          + (if \<exists>laugh \<in> set laughter. sublist laugh (lower (seg_text seg))
             then 1 else 0))"
proof -
  have "energy_moment = (\<lambda>seg. \<lparr>m_start = seg_start seg, m_end = seg_end seg,
          m_text = seg_text seg, m_energy_score = energy_score seg, m_reason = high_energy\<rparr>)"
    by (rule ext) (simp add: energy_moment_def)
  then show ?thesis
    using filter_high_energy[of segments] energy_score_eq by simp
qed

theorem energy_moments_emitted_witness:
  "filter (\<lambda>m. m_reason m = high_energy) (find_moments example_transcript)
     = [\<lparr>m_start = 10, m_end = 12, m_text = ''wow insane!'', m_energy_score = 4,
          m_reason = high_energy\<rparr>,
        \<lparr>m_start = 42, m_end = 50, m_text = ''Holy, that was CLUTCH'', m_energy_score = 2,
          m_reason = high_energy\<rparr>,
        \<lparr>m_start = 100, m_end = 102, m_text = ''no way! lol'', m_energy_score = 4,
          m_reason = high_energy\<rparr>]"
  unfolding conjunct1[OF energy_moments_emitted [of example_transcript]]
  by code_simp

text \<open>
  C1 (as stated) fails: in the text \<open>wow wow\<close> an energy phrase occurs twice, so the score
  counted per occurrence is 2, but the code counts the phrase once and emits no moment.
\<close>

theorem energy_score_not_occurrence_count:
  "spec_energy_score repeated_word = 2 \<and> energy_score repeated_word = 1
   \<and> find_moments [repeated_word] = []"
  by code_simp



section \<open>The selection loop\<close>

lemma make_clip_fields [simp]:
  "c_start (make_clip segments s e m) = s"
  "c_end (make_clip segments s e m) = e"
  "c_duration (make_clip segments s e m) = e - s"
  "c_reason (make_clip segments s e m) = m_reason m"
  "c_segments (make_clip segments s e m)
     = filter (\<lambda>x. (s \<le> seg_start x \<and> seg_start x \<le> e)
                  \<or> (s \<le> seg_end x \<and> seg_end x \<le> e)) segments"
  "c_text (make_clip segments s e m)
     = strip (join '' '' (map seg_text
         (filter (\<lambda>x. (s \<le> seg_start x \<and> seg_start x \<le> e)
                      \<or> (s \<le> seg_end x \<and> seg_end x \<le> e)) segments)))"
  by (simp_all add: make_clip_def Let_def)


lemma select_clips_length:
  "length clips \<le> 5 \<Longrightarrow> length (select_clips segments mn mx moments clips) \<le> 5"
  by (induction moments arbitrary: clips) (auto simp: case_prod_beta)

lemma separated_Nil: "separated []"
  by (simp add: separated_def)

lemma separated_take: "separated clips \<Longrightarrow> separated (take n clips)"
  by (simp add: separated_def)

lemma separated_snoc:
  assumes "separated clips" "\<not> list_ex (overlap_test (c_start c) (c_end c)) clips"
  shows "separated (clips @ [c])"
  unfolding separated_def
proof (intro allI impI)
  fix j i
  assume j: "j < length (clips @ [c])" and i: "i < j"
  show "\<not> overlap_test (c_start ((clips @ [c]) ! j)) (c_end ((clips @ [c]) ! j))
            ((clips @ [c]) ! i)"
  proof (cases "j < length clips")
    case True
    then show ?thesis
      using assms(1) i by (simp add: separated_def nth_append)
  next
    case False
    then have at_end: "j = length clips"
      using j by simp
    then have "clips ! i \<in> set clips"
      using i by simp
    then show ?thesis
      using assms(2) i at_end by (auto simp: list_ex_iff nth_append)
  qed
qed

lemma select_clips_separated:
  "separated clips \<Longrightarrow> separated (select_clips segments mn mx moments clips)"
proof (induction moments arbitrary: clips)
  case Nil
  then show ?case by simp
next
  case (Cons m rest)
  show ?case
  proof (cases "length clips \<ge> 5")
    case True
    then show ?thesis
      using Cons.prems by simp
  next
    case False
    show ?thesis
    proof (cases "list_ex (overlap_test (fst (clip_window segments mn mx m))
                    (snd (clip_window segments mn mx m))) clips")
      case True
      then show ?thesis
        using False Cons by (simp add: case_prod_beta)
    next
      case free: False
      have "separated (clips @ [clip_of segments mn mx m])"
        using Cons.prems free by (intro separated_snoc) (simp_all add: clip_of_def)
      then have "separated (select_clips segments mn mx rest
                              (clips @ [clip_of segments mn mx m]))"
        by (rule Cons.IH)
      then show ?thesis
        using False free by (simp add: case_prod_beta clip_of_def)
    qed
  qed
qed

lemma separated_find_viral_moments: "separated (find_viral_moments segments mn mx)"
  by (simp add: find_viral_moments_def separated_Nil select_clips_separated)




lemma find_viral_moments_length: "length (find_viral_moments segments mn mx) \<le> 5"
  by (simp add: find_viral_moments_def select_clips_length)





lemma py_slice_to_take: "\<exists>n. py_slice_to xs k = take n xs"
  by (auto simp: py_slice_to_def)


lemma separated_selected_windows: "separated (selected_windows segments cd k)"
  using py_slice_to_take[of "find_viral_moments segments (fst cd) (snd cd)" k]
  by (auto simp: selected_windows_def separated_take separated_find_viral_moments)














text \<open>What \<open>strip\<close> leaves neither starts nor ends with whitespace.\<close>

lemma last_dropWhile_nonempty: "dropWhile P xs \<noteq> [] \<Longrightarrow> last (dropWhile P xs) = last xs"
  by (metis last_appendR takeWhile_dropWhile_id)

lemma strip_trimmed:
  assumes "strip s \<noteq> []"
  shows "\<not> is_space (hd (strip s))" and "\<not> is_space (last (strip s))"
proof -
  define ys where "ys = dropWhile is_space s"
  define zs where "zs = dropWhile is_space (rev ys)"
  have st: "strip s = rev zs"
    by (simp add: strip_def ys_def zs_def)
  have zs: "zs \<noteq> []"
    using assms st by simp
  then have ys: "ys \<noteq> []"
    by (auto simp: zs_def)
  have "\<not> is_space (hd zs)"
    using zs unfolding zs_def by (rule hd_dropWhile)
  then show "\<not> is_space (last (strip s))"
    using zs by (simp add: st last_rev)
  have "last zs = last (rev ys)"
    using zs unfolding zs_def by (rule last_dropWhile_nonempty)
  also have "\<dots> = hd ys"
    using ys by (simp add: last_rev)
  finally have "hd (strip s) = hd ys"
    using zs by (simp add: st hd_rev)
  moreover have "\<not> is_space (hd ys)"
    using ys unfolding ys_def by (rule hd_dropWhile)
  ultimately show "\<not> is_space (hd (strip s))"
    by simp
qed

section \<open>Subtitles of a selected window\<close>

text \<open>
  C7, at a transcript for which it fails. The first window selected for the example
  transcript runs from 3.5 to 18.5 seconds and holds three segments. The first of them
  starts before the window and is skipped, and the two captions that are written carry
  the numbers 2 and 3: the caption number is the position of the segment in the window,
  skipped segments included.
\<close>

theorem srt_numbering_skips_indices:
  "c_start (find_viral_moments example_transcript 15 60 ! 0) = 7 / 2
   \<and> map seg_text (c_segments (find_viral_moments example_transcript 15 60 ! 0))
       = [''hello'', ''wow insane!'', ''ok'']
   \<and> subtitle_track True (c_segments (find_viral_moments example_transcript 15 60 ! 0))
        (c_start (find_viral_moments example_transcript 15 60 ! 0))
       = Some (''2'' @ newline @ ''00:00:06,500 --> 00:00:08,500'' @ newline
               @ ''wow insane!'' @ newline @ newline
               @ ''3'' @ newline @ ''00:00:08,500 --> 00:00:36,500'' @ newline
               @ ''ok'' @ newline @ newline)"
  by code_simp

section \<open>The first scenario of the specification\<close>

text \<open>
  C8 (as amended). For the transcript of the one segment from 10 to 12 seconds with the
  text \<open>holy that was insane!\<close>, a minimum of 15 and a maximum of 60, the score is 4 (one for
  \<open>holy\<close>, one for \<open>insane\<close>, two for the exclamation mark), there is exactly one moment, a
  high_energy one, and exactly one window, from 3.5 to 12 seconds: the start is moved by
  6.5 seconds and the end is clamped at the end of the last segment.
\<close>

theorem scenario_one_result:
  "energy_score (scenario_one ! 0) = 4
   \<and> find_moments scenario_one
       = [\<lparr>m_start = 10, m_end = 12, m_text = ''holy that was insane!'', m_energy_score = 4,
            m_reason = high_energy\<rparr>]
   \<and> find_viral_moments scenario_one 15 60
       = [\<lparr>c_start = 7 / 2, c_end = 12, c_duration = 17 / 2,
            c_text = ''holy that was insane!'', c_segments = scenario_one,
            c_reason = high_energy\<rparr>]"
  by code_simp

text \<open>
  C8 (as stated) fails: the score is not 3, and the window starts 5 seconds before 8.5
  and ends 3.5 seconds before 15.5.
\<close>

theorem scenario_one_not_as_specified:
  "energy_score (scenario_one ! 0) \<noteq> 3
   \<and> c_start (find_viral_moments scenario_one 15 60 ! 0) = 17 / 2 - 5
   \<and> c_end (find_viral_moments scenario_one 15 60 ! 0) = 31 / 2 - 7 / 2"
  by code_simp

section \<open>The rendering loop\<close>

lemma foldl_render_step:
  "attempted (foldl (render_step outcome vod_url) st xs) = attempted st @ xs"
  "output_files (foldl (render_step outcome vod_url) st xs)
     = output_files st @ map fst (filter (\<lambda>ic. outcome (fst ic)) xs)"
  "sidecars (foldl (render_step outcome vod_url) st xs)
     = sidecars st @ map (\<lambda>ic. (fst ic, metadata_of vod_url (snd ic)))
                       (filter (\<lambda>ic. outcome (fst ic)) xs)"
  by (induction xs arbitrary: st) (simp_all add: render_step_def Let_def)

lemma render_loop_fields:
  "attempted (render_loop outcome vod_url windows) = enumerate 1 windows"
  "output_files (render_loop outcome vod_url windows)
     = map fst (filter (\<lambda>ic. outcome (fst ic)) (enumerate 1 windows))"
  "sidecars (render_loop outcome vod_url windows)
     = map (\<lambda>ic. (fst ic, metadata_of vod_url (snd ic)))
           (filter (\<lambda>ic. outcome (fst ic)) (enumerate 1 windows))"
  by (simp_all add: render_loop_def foldl_render_step render_init_def)

lemma process_vod_render_loop:
  assumes "download_ok"
  shows "process_vod download_ok segments outcome vod_url cd k
           = render_loop outcome vod_url (selected_windows segments cd k)"
proof (cases "find_viral_moments segments (fst cd) (snd cd) = []")
  case True
  then have "selected_windows segments cd k = []"
    by (simp add: selected_windows_def py_slice_to_def)
  then show ?thesis
    using True by (simp add: process_vod_def render_loop_def)
next
  case False
  then have "segments \<noteq> []"
    by (auto simp: find_viral_moments_def)
  then show ?thesis
    using assms False by (simp add: process_vod_def selected_windows_def)
qed

text \<open>
  C9. When the download has succeeded, \<open>process_vod\<close> calls the renderer once for every
  selected window, in order, whatever the earlier calls returned; the files it returns
  are those of the calls that succeeded, in order, each with one metadata sidecar built
  from its window, and no other sidecar is written; and \<open>process_job\<close> stores the status
  failed if and only if the list of files is empty.
\<close>

theorem render_failures_isolated:
  assumes "download_ok"
  shows "attempted (process_vod download_ok segments outcome vod_url cd k)
           = enumerate 1 (selected_windows segments cd k)
       \<and> output_files (process_vod download_ok segments outcome vod_url cd k)
           = map fst (filter (\<lambda>ic. outcome (fst ic))
                        (enumerate 1 (selected_windows segments cd k)))
       \<and> sidecars (process_vod download_ok segments outcome vod_url cd k)
           = map (\<lambda>ic. (fst ic, metadata_of vod_url (snd ic)))
                 (filter (\<lambda>ic. outcome (fst ic))
                    (enumerate 1 (selected_windows segments cd k)))
       \<and> (process_job_status (output_files (process_vod download_ok segments outcome vod_url cd k))
            = failed
          \<longleftrightarrow> output_files (process_vod download_ok segments outcome vod_url cd k) = [])"
  unfolding process_vod_render_loop[OF assms]
  by (simp add: render_loop_fields process_job_status_def)

text \<open>The second of three renderings fails: the first and the third clip are returned.\<close>

theorem render_failures_isolated_witness:
  "map fst (attempted (process_vod True example_transcript (\<lambda>i. i \<noteq> 2) ''vod'' (15, 60) 5))
     = [1, 2, 3]
   \<and> output_files (process_vod True example_transcript (\<lambda>i. i \<noteq> 2) ''vod'' (15, 60) 5)
     = [1, 3]
   \<and> map fst (sidecars (process_vod True example_transcript (\<lambda>i. i \<noteq> 2) ''vod'' (15, 60) 5))
     = [1, 3]
   \<and> process_job_status
       (output_files (process_vod True example_transcript (\<lambda>i. i \<noteq> 2) ''vod'' (15, 60) 5))
     \<noteq> failed"
proof -
  have ok: True ..
  note run = render_failures_isolated
    [OF ok, of example_transcript "\<lambda>i. i \<noteq> 2" "''vod''" "(15, 60)" 5]
  have calls: "map fst (enumerate 1 (selected_windows example_transcript (15, 60) 5))
                 = [1, 2, 3]"
    by code_simp
  have files: "map fst (filter (\<lambda>ic. fst ic \<noteq> 2)
                 (enumerate 1 (selected_windows example_transcript (15, 60) 5))) = [1, 3]"
    by code_simp
  have a: "map fst (attempted
             (process_vod True example_transcript (\<lambda>i. i \<noteq> 2) ''vod'' (15, 60) 5))
             = [1, 2, 3]"
    using conjunct1[OF run] calls by simp
  have f: "output_files (process_vod True example_transcript (\<lambda>i. i \<noteq> 2) ''vod'' (15, 60) 5)
             = [1, 3]"
    using conjunct1[OF conjunct2[OF run]] files by simp
  have s: "map fst (sidecars
             (process_vod True example_transcript (\<lambda>i. i \<noteq> 2) ''vod'' (15, 60) 5))
             = [1, 3]"
    using conjunct1[OF conjunct2[OF conjunct2[OF run]]] files by (simp add: o_def)
  have st: "process_job_status (output_files
              (process_vod True example_transcript (\<lambda>i. i \<noteq> 2) ''vod'' (15, 60) 5))
              \<noteq> failed"
    using conjunct2[OF conjunct2[OF conjunct2[OF run]]] f by simp
  show ?thesis
    using a f s st by blast
qed

section \<open>The configuration is not read\<close>

lemma fixed_lists_differ_from_config:
  "energy_words \<noteq> ENERGY_WORDS config_py \<and> laughter \<noteq> LAUGHTER_PATTERNS config_py"
  by (simp add: energy_words_def laughter_def config_py_def)


end
